theory Spec2Isabelle
  imports Main "HOL-Library.Sublist"
begin

section \<open>Go values used by \<^verbatim>\<open>pkg/trivy/wrapper.go\<close>\<close>

subsection \<open>Slices\<close>

text \<open>
  A Go slice is either \<^verbatim>\<open>nil\<close> or an initialised sequence; the two are different values
  even when both have length zero (they encode differently as JSON and compare differently
  with \<^verbatim>\<open>nil\<close>). \<open>None\<close> is the nil slice, \<open>Some xs\<close> an initialised slice holding \<open>xs\<close>.
\<close>

type_synonym 'a slice = "'a list option"

definition elems :: "'a slice \<Rightarrow> 'a list" where
  "elems s = (case s of None \<Rightarrow> [] | Some xs \<Rightarrow> xs)"

definition len :: "'a slice \<Rightarrow> nat" where
  "len s = length (elems s)"

text \<open>
  \<^verbatim>\<open>append(s, t...)\<close>: the elements of \<open>t\<close> after those of \<open>s\<close>. Appending nothing gives
  \<open>s\<close> back, so a nil \<open>s\<close> stays nil and an initialised \<open>s\<close> stays initialised; appending
  at least one element always gives an initialised slice.
\<close>

definition append_slice :: "'a slice \<Rightarrow> 'a slice \<Rightarrow> 'a slice" where
  "append_slice s t =
     (case s of
        None \<Rightarrow> (if elems t = [] then None else Some (elems t))
      | Some xs \<Rightarrow> Some (xs @ elems t))"

subsection \<open>Errors\<close>

text \<open>
  A Go \<^verbatim>\<open>error\<close> is a value with a message (\<^verbatim>\<open>Error()\<close>) and, when it wraps another
  error, the wrapped one (\<^verbatim>\<open>Unwrap()\<close>). Errors made by the standard library (path lookup,
  file creation, process execution, JSON decoding) are values of the same type.
\<close>

datatype error =
    errorString string
  | wrapError string error

fun Error :: "error \<Rightarrow> string" where
  "Error (errorString msg) = msg"
| "Error (wrapError msg err) = msg"

fun Unwrap :: "error \<Rightarrow> error option" where
  "Unwrap (errorString msg) = None"
| "Unwrap (wrapError msg err) = Some err"

text \<open>\<^verbatim>\<open>xerrors.New(text)\<close>.\<close>

definition xerrors_New :: "string \<Rightarrow> error" where
  "xerrors_New text = errorString text"

subsection \<open>Log entries and the effects of a call\<close>

datatype level = TraceLevel | DebugLevel | WarnLevel | ErrorLevel

datatype fval =
    FString string
  | FInt int
  | FStrings "string list"
  | FError error

text \<open>
  What a call does besides returning: log entries (level, fields, message), the one
  subprocess it starts (executable, arguments, environment) and the file removals it
  attempts. Every function below takes the events so far and returns them extended.
\<close>

datatype event =
    Log level "(string \<times> fval) list" string
  | Exec string "string list" "string list"
  | RemoveFile string

section \<open>Data model\<close>

text \<open>
  Modelled from the spec: the struct \<^verbatim>\<open>ScanReport\<close> and the type \<^verbatim>\<open>Vulnerability\<close> are
  declared outside \<^verbatim>\<open>wrapper.go\<close>. The code reads and writes the fields \<^verbatim>\<open>Target\<close> (a
  string) and \<^verbatim>\<open>Vulnerabilities\<close> (a slice of vulnerability records); a vulnerability is
  passed through uninterpreted, so its type is the parameter \<open>'v\<close>.
\<close>

record 'v ScanReport =
  Target :: string
  Vulnerabilities :: "'v slice"

text \<open>The zero value of the struct, which a named result holds until it is assigned.\<close>

definition ScanReport_zero :: "'v ScanReport" where
  "ScanReport_zero = \<lparr>Target = [], Vulnerabilities = None\<rparr>"

record RegistryAuth =
  Username :: string
  Password :: string

text \<open>
  Modelled from the spec: the struct \<^verbatim>\<open>etc.Trivy\<close> is declared in another package; these
  are the fields \<^verbatim>\<open>wrapper.go\<close> reads from it.
\<close>

record Trivy =
  ReportsDir :: string
  CacheDir :: string
  Severity :: string
  VulnType :: string
  IgnoreUnfixed :: bool
  DebugMode :: bool

record wrapper =
  config :: Trivy

definition NewWrapper :: "Trivy \<Rightarrow> wrapper" where
  "NewWrapper cfg = \<lparr>config = cfg\<rparr>"

section \<open>The report normaliser: \<^verbatim>\<open>parseScanReports\<close>\<close>

text \<open>
  The loop \<^verbatim>\<open>for _, scanReport := range scanReports\<close>: one trace-level log entry and one
  \<^verbatim>\<open>append\<close> per sub-report, in order.
\<close>

fun range_scanReports ::
  "'v ScanReport list \<Rightarrow> 'v ScanReport \<Rightarrow> event list \<Rightarrow> 'v ScanReport \<times> event list" where
  "range_scanReports [] report tr = (report, tr)"
| "range_scanReports (scanReport # rest) report tr =
     range_scanReports rest
       (report\<lparr>Vulnerabilities :=
          append_slice (Vulnerabilities report) (Vulnerabilities scanReport)\<rparr>)
       (tr @ [Log TraceLevel [(''target'', FString (Target scanReport))]
                ''Parsing vulnerabilities''])"

text \<open>
  \<open>Decode\<close> stands for \<^verbatim>\<open>json.NewDecoder(reportFile).Decode(&scanReports)\<close> of the standard
  library: from what the reader yields it gives either an error or the decoded slice of
  sub-reports (the nil slice for the JSON value \<^verbatim>\<open>null\<close>). The reader is any \<^verbatim>\<open>io.Reader\<close>,
  so its type is the parameter \<open>'r\<close>.

  \<open>Errorf\<close> stands for \<^verbatim>\<open>xerrors.Errorf\<close> applied to a format and one error operand. The format
  used here has its \<^verbatim>\<open>%w\<close> verb after a space, not after a colon and a space; what message the
  library then builds, and whether the result unwraps to the operand, is the library's own
  matter, so the function is a parameter and nothing is assumed of it.
\<close>

definition parseScanReports ::
  "(string \<Rightarrow> error \<Rightarrow> error) \<Rightarrow> ('r \<Rightarrow> error + 'v ScanReport slice) \<Rightarrow> 'r
     \<Rightarrow> event list \<Rightarrow> 'v ScanReport \<times> error option \<times> event list" where
  "parseScanReports Errorf Decode reportFile tr =
     (let report = ScanReport_zero in
      case Decode reportFile of
        Inl err \<Rightarrow>
          (report, Some (Errorf ''decoding scan report from file %w'' err), tr)
      | Inr scanReports \<Rightarrow>
          if len scanReports = 0
          then (report, Some (xerrors_New ''expected at least one report''), tr)
          else
            let report = report\<lparr>Target := Target (elems scanReports ! 0)\<rparr>;
                report = report\<lparr>Vulnerabilities := Some []\<rparr>;
                (report, tr) = range_scanReports (elems scanReports) report tr
            in (report, None, tr))"

section \<open>The invoker: \<^verbatim>\<open>Run\<close>\<close>

text \<open>
  What the operating system answers to the calls \<^verbatim>\<open>Run\<close> makes. \<open>Output\<close> is the whole
  run of the subprocess for a given executable, argument list and environment: the
  captured standard output, the content of the standard-error buffer, the error of
  \<^verbatim>\<open>cmd.Output()\<close> if any, \<^verbatim>\<open>cmd.ProcessState.ExitCode()\<close>, and what reading the report
  file yields afterwards. The last two fields are the two library functions
  \<^verbatim>\<open>parseScanReports\<close> is given.
\<close>

record 'r proc =
  stdout_bytes :: string
  stderrBuffer :: string
  output_err :: "error option"
  ExitCode :: int
  reportFile_content :: 'r

record ('r, 'v) sys =
  LookPath :: "string \<Rightarrow> error + string"
  TempFile :: "string \<Rightarrow> string \<Rightarrow> error + string"
  Environ :: "string list"
  Output :: "string \<Rightarrow> string list \<Rightarrow> string list \<Rightarrow> 'r proc"
  Remove :: "string \<Rightarrow> error option"
  json_Decode :: "'r \<Rightarrow> error + 'v ScanReport slice"
  xerrors_Errorf :: "string \<Rightarrow> error \<Rightarrow> error"

text \<open>The argument list, as built between the \<^verbatim>\<open>defer\<close> and \<^verbatim>\<open>exec.Command\<close>.\<close>

definition Run_args :: "wrapper \<Rightarrow> string \<Rightarrow> string \<Rightarrow> string list" where
  "Run_args w reportFile_Name imageRef =
     (let args =
            [''--no-progress'',
             ''--cache-dir'', CacheDir (config w),
             ''--severity'', Severity (config w),
             ''--vuln-type'', VulnType (config w),
             ''--format'', ''json'',
             ''--output'', reportFile_Name,
             imageRef];
          args = (if IgnoreUnfixed (config w) then [''--ignore-unfixed''] @ args else args);
          args = (if DebugMode (config w) then [''--debug''] @ args else args)
      in args)"

text \<open>The environment \<^verbatim>\<open>cmd.Env\<close>, from the process environment \<^verbatim>\<open>os.Environ()\<close>.\<close>

definition Run_env :: "string list \<Rightarrow> RegistryAuth \<Rightarrow> bool \<Rightarrow> string list" where
  "Run_env environ auth insecureRegistry =
     (let env = environ;
          env = (if Username auth \<noteq> [] \<and> Password auth \<noteq> []
                 then env @ [''TRIVY_USERNAME='' @ Username auth,
                             ''TRIVY_PASSWORD='' @ Password auth]
                 else env);
          env = (if insecureRegistry then env @ [''TRIVY_NON_SSL=true''] else env)
      in env)"

text \<open>
  The body of \<^verbatim>\<open>Run\<close> once the temporary file exists: from building the arguments to the
  last \<^verbatim>\<open>return\<close>. The deferred function runs after it.
\<close>

definition Run_scan ::
  "('r, 'v) sys \<Rightarrow> wrapper \<Rightarrow> string \<Rightarrow> RegistryAuth \<Rightarrow> bool \<Rightarrow> string \<Rightarrow> string
     \<Rightarrow> event list \<Rightarrow> 'v ScanReport \<times> error option \<times> event list" where
  "Run_scan os w imageRef auth insecureRegistry executable reportFile_Name tr =
     (let report = ScanReport_zero;
          args = Run_args w reportFile_Name imageRef;
          tr = tr @ [Log TraceLevel [(''cmd'', FString executable), (''args'', FStrings args)]
                       ''Exec command with args''];
          env = Run_env (Environ os) auth insecureRegistry;
          cmd = Output os executable args env;
          tr = tr @ [Exec executable args env]
      in case output_err cmd of
           Some err \<Rightarrow>
             (report,
              Some (errorString
                (''running trivy: '' @ Error err @ '': '' @ stderrBuffer cmd)),
              tr @ [Log ErrorLevel
                      [(''image_ref'', FString imageRef),
                       (''exit_code'', FInt (ExitCode cmd)),
                       (''std_err'', FString (stderrBuffer cmd)),
                       (''std_out'', FString (stdout_bytes cmd))]
                      ''Running trivy failed''])
         | None \<Rightarrow>
             parseScanReports (xerrors_Errorf os) (json_Decode os) (reportFile_content cmd)
               (tr @ [Log DebugLevel
                        [(''image_ref'', FString imageRef),
                         (''exit_code'', FInt (ExitCode cmd)),
                         (''std_err'', FString (stderrBuffer cmd)),
                         (''std_out'', FString (stdout_bytes cmd))]
                        ''Running trivy finished'']))"

text \<open>
  The deferred function: it logs, removes the file by name and logs a warning when the
  removal fails. Its \<^verbatim>\<open>err\<close> is a variable of its own, not the result of \<^verbatim>\<open>Run\<close>.
\<close>

definition Run_deferred :: "('r, 'v) sys \<Rightarrow> string \<Rightarrow> event list \<Rightarrow> event list" where
  "Run_deferred os reportFile_Name tr =
     (let tr = tr @ [Log DebugLevel [(''path'', FString reportFile_Name)]
                       ''Removing scan report tmp file'',
                     RemoveFile reportFile_Name]
      in case Remove os reportFile_Name of
           None \<Rightarrow> tr
         | Some err \<Rightarrow>
             tr @ [Log WarnLevel [(''error'', FError err)]
                     ''Error while removing scan report file''])"

definition Run ::
  "('r, 'v) sys \<Rightarrow> wrapper \<Rightarrow> string \<Rightarrow> RegistryAuth \<Rightarrow> bool \<Rightarrow> event list
     \<Rightarrow> 'v ScanReport \<times> error option \<times> event list" where
  "Run os w imageRef auth insecureRegistry tr =
     (let report = ScanReport_zero;
          tr = tr @ [Log DebugLevel [(''image_ref'', FString imageRef)] ''Started scanning'']
      in case LookPath os ''trivy'' of
           Inl err \<Rightarrow> (report, Some err, tr)
         | Inr executable \<Rightarrow>
             (case TempFile os (ReportsDir (config w)) ''scan_report_*.json'' of
                Inl err \<Rightarrow> (report, Some err, tr)
              | Inr reportFile_Name \<Rightarrow>
                  let tr = tr @ [Log DebugLevel [(''path'', FString reportFile_Name)]
                                   ''Saving scan report to tmp file''];
                      (report, err, tr) =
                        Run_scan os w imageRef auth insecureRegistry executable
                          reportFile_Name tr
                  in (report, err, Run_deferred os reportFile_Name tr)))"

section \<open>Observations on a trace and on an environment\<close>

text \<open>The subprocesses a trace started, and the files it tried to remove, in order.\<close>

fun execs :: "event list \<Rightarrow> (string \<times> string list \<times> string list) list" where
  "execs [] = []"
| "execs (Exec executable args env # tr) = (executable, args, env) # execs tr"
| "execs (Log l fs msg # tr) = execs tr"
| "execs (RemoveFile name # tr) = execs tr"

fun subprocess_envs :: "event list \<Rightarrow> string list list" where
  "subprocess_envs [] = []"
| "subprocess_envs (Exec executable args env # tr) = env # subprocess_envs tr"
| "subprocess_envs (Log l fs msg # tr) = subprocess_envs tr"
| "subprocess_envs (RemoveFile name # tr) = subprocess_envs tr"

fun removals :: "event list \<Rightarrow> string list" where
  "removals [] = []"
| "removals (RemoveFile name # tr) = name # removals tr"
| "removals (Log l fs msg # tr) = removals tr"
| "removals (Exec executable args env # tr) = removals tr"

text \<open>
  The values an environment (a list of \<^verbatim>\<open>KEY=value\<close> entries) gives to a variable, in
  order of occurrence. A process started with duplicates sees the last one.
\<close>

definition env_values :: "string list \<Rightarrow> string \<Rightarrow> string list" where
  "env_values env key = map (drop (length key + 1)) (filter (prefix (key @ ''='')) env)"

section \<open>Sample inputs\<close>

definition example_scanReports :: "string ScanReport list" where
  "example_scanReports =
     [\<lparr>Target = ''alpine:3.10 (alpine 3.10.2)'',
       Vulnerabilities = Some [''CVE-2019-0001'', ''CVE-2019-0002'']\<rparr>,
      \<lparr>Target = ''app/package-lock.json'', Vulnerabilities = None\<rparr>,
      \<lparr>Target = ''app/Gemfile.lock'', Vulnerabilities = Some [''CVE-2019-0003'']\<rparr>]"

text \<open>A stand-in for \<^verbatim>\<open>xerrors.Errorf\<close>: an error whose message is the format itself.\<close>

definition example_Errorf :: "string \<Rightarrow> error \<Rightarrow> error" where
  "example_Errorf format err = errorString format"

definition example_wrapper :: wrapper where
  "example_wrapper =
     NewWrapper \<lparr>ReportsDir = ''/data/reports'', CacheDir = ''/data/cache'',
                 Severity = ''HIGH,CRITICAL'', VulnType = ''os,library'',
                 IgnoreUnfixed = True, DebugMode = True\<rparr>"

definition example_proc :: "error option \<Rightarrow> string \<Rightarrow> 'r \<Rightarrow> 'r proc" where
  "example_proc e errText content =
     \<lparr>stdout_bytes = [], stderrBuffer = errText, output_err = e,
      ExitCode = (if e = None then 0 else 1), reportFile_content = content\<rparr>"

text \<open>
  A system where \<^verbatim>\<open>trivy\<close> is found, the temporary file is created, the subprocess ends
  as \<open>p\<close> says whatever its command line, removing the file answers \<open>rm\<close>, and the report
  file holds the decoder's outcome itself.
\<close>

definition example_sys ::
  "string list \<Rightarrow> (error + 'v ScanReport slice) proc \<Rightarrow> error option
     \<Rightarrow> (error + 'v ScanReport slice, 'v) sys" where
  "example_sys environ p rm =
     \<lparr>LookPath = (\<lambda>file. Inr (''/usr/local/bin/'' @ file)),
      TempFile = (\<lambda>dir pattern. Inr (dir @ ''/scan_report_123456789.json'')),
      Environ = environ,
      Output = (\<lambda>executable args env. p),
      Remove = (\<lambda>name. rm),
      json_Decode = (\<lambda>content. content),
      xerrors_Errorf = example_Errorf\<rparr>"

section \<open>Properties of the report normaliser\<close>

subsection \<open>The loop and the three outcomes\<close>

lemma range_scanReports_Some:
  "Vulnerabilities report = Some acc \<Longrightarrow>
   fst (range_scanReports rs report tr) =
     report\<lparr>Vulnerabilities := Some (acc @ concat (map (\<lambda>r. elems (Vulnerabilities r)) rs))\<rparr>"
  by (induction rs arbitrary: report acc tr) (simp_all add: append_slice_def)

lemma range_scanReports_trace:
  "snd (range_scanReports rs report tr) =
     tr @ map (\<lambda>r. Log TraceLevel [(''target'', FString (Target r))] ''Parsing vulnerabilities'') rs"
  by (induction rs arbitrary: report tr) simp_all

lemma parseScanReports_ok:
  assumes "Decode reportFile = Inr scanReports" and "len scanReports \<noteq> 0"
  shows "parseScanReports Errorf Decode reportFile tr =
           (\<lparr>Target = Target (elems scanReports ! 0),
             Vulnerabilities = Some (concat (map (\<lambda>r. elems (Vulnerabilities r)) (elems scanReports)))\<rparr>,
            None,
            tr @ map (\<lambda>r. Log TraceLevel [(''target'', FString (Target r))] ''Parsing vulnerabilities'') (elems scanReports))"
proof -
  let ?r0 = "\<lparr>Target = Target (elems scanReports ! 0), Vulnerabilities = Some []\<rparr>"
  have "range_scanReports (elems scanReports) ?r0 tr =
      (fst (range_scanReports (elems scanReports) ?r0 tr),
       snd (range_scanReports (elems scanReports) ?r0 tr))"
    by simp
  also have "fst (range_scanReports (elems scanReports) ?r0 tr) =
      \<lparr>Target = Target (elems scanReports ! 0),
       Vulnerabilities = Some (concat (map (\<lambda>r. elems (Vulnerabilities r)) (elems scanReports)))\<rparr>"
    using range_scanReports_Some [of ?r0 "[]" "elems scanReports" tr] by simp
  finally show ?thesis
    using assms by (simp add: parseScanReports_def ScanReport_zero_def range_scanReports_trace)
qed

lemma parseScanReports_empty_eq:
  assumes "Decode reportFile = Inr scanReports" and "len scanReports = 0"
  shows "parseScanReports Errorf Decode reportFile tr =
    (ScanReport_zero, Some (xerrors_New ''expected at least one report''), tr)"
  using assms by (simp add: parseScanReports_def)

lemma parseScanReports_Inl:
  assumes "Decode reportFile = Inl e"
  shows "parseScanReports Errorf Decode reportFile tr =
    (ScanReport_zero, Some (Errorf ''decoding scan report from file %w'' e), tr)"
  using assms by (simp add: parseScanReports_def)

subsection \<open>The aggregate\<close>

text \<open>
  Claim C1. When the decoder yields a non-empty sequence of sub-reports, \<^verbatim>\<open>parseScanReports\<close>
  succeeds and the aggregate's \<^verbatim>\<open>Vulnerabilities\<close> is the concatenation, in sub-report order,
  of the sub-reports' vulnerability sequences (a nil sequence contributing nothing); its
  length is the sum of their lengths.
\<close>

theorem parseScanReports_Vulnerabilities:
  assumes "Decode reportFile = Inr scanReports" and "len scanReports \<noteq> 0"
    and "parseScanReports Errorf Decode reportFile tr = (report, err, tr')"
  shows "err = None \<and>
    Vulnerabilities report =
      Some (concat (map (\<lambda>r. elems (Vulnerabilities r)) (elems scanReports))) \<and>
    len (Vulnerabilities report) =
      sum_list (map (\<lambda>r. len (Vulnerabilities r)) (elems scanReports))"
proof -
  from assms(3) parseScanReports_ok [of Decode reportFile scanReports Errorf tr, OF assms(1,2)] 
  have e: "err = None" and v: "Vulnerabilities report =
      Some (concat (map (\<lambda>r. elems (Vulnerabilities r)) (elems scanReports)))"
    by auto
  have "len (Vulnerabilities report) =
      sum_list (map (\<lambda>r. len (Vulnerabilities r)) (elems scanReports))"
    by (simp add: v len_def elems_def length_concat comp_def)
  with e v show ?thesis by simp
qed

theorem parseScanReports_Vulnerabilities_witness:
  "len (Some example_scanReports) \<noteq> 0 \<and>
   (case parseScanReports example_Errorf (\<lambda>u::unit. Inr (Some example_scanReports)) () [] of
      (report, err, tr') \<Rightarrow>
        err = None \<and>
        Vulnerabilities report = Some [''CVE-2019-0001'', ''CVE-2019-0002'', ''CVE-2019-0003''] \<and>
        len (Vulnerabilities report) = 3)"
proof -
  let ?D = "\<lambda>u::unit. Inr (Some example_scanReports) :: error + string ScanReport slice"
  have n: "len (Some example_scanReports) \<noteq> 0"
    by (simp add: len_def elems_def example_scanReports_def)
  obtain report err tr' where p: "parseScanReports example_Errorf ?D () [] = (report, err, tr')"
    by (cases "parseScanReports example_Errorf ?D () []")
  from parseScanReports_Vulnerabilities [of ?D "()" "Some example_scanReports" example_Errorf "[]"
      report err tr']
    n p
  have "err = None \<and>
        Vulnerabilities report = Some [''CVE-2019-0001'', ''CVE-2019-0002'', ''CVE-2019-0003''] \<and>
        len (Vulnerabilities report) = 3"
    by (simp add: len_def elems_def example_scanReports_def)
  with n p show ?thesis by (simp add: len_def elems_def)
qed

text \<open>
  Claim C2. When the decoder yields a first sub-report followed by any others, the
  aggregate's \<^verbatim>\<open>Target\<close> is the first sub-report's, whatever the others hold.
\<close>

theorem parseScanReports_Target:
  assumes "Decode reportFile = Inr (Some (first # rest))"
    and "parseScanReports Errorf Decode reportFile tr = (report, err, tr')"
  shows "err = None \<and> Target report = Target first"
proof -
  have "len (Some (first # rest)) \<noteq> 0" by (simp add: len_def elems_def)
  from parseScanReports_ok [of Decode reportFile "Some (first # rest)" Errorf tr, OF assms(1) this]
    assms(2)
  show ?thesis by (auto simp: elems_def)
qed

theorem parseScanReports_Target_witness:
  "(case parseScanReports example_Errorf (\<lambda>u::unit. Inr (Some example_scanReports)) () [] of
      (report, err, tr') \<Rightarrow> err = None \<and> Target report = ''alpine:3.10 (alpine 3.10.2)'')"
proof -
  let ?D = "\<lambda>u::unit. Inr (Some example_scanReports) :: error + string ScanReport slice"
  obtain report err tr' where p: "parseScanReports example_Errorf ?D () [] = (report, err, tr')"
    by (cases "parseScanReports example_Errorf ?D () []")
  from parseScanReports_Target [of ?D "()" "hd example_scanReports" "tl example_scanReports"
      example_Errorf "[]" report err tr'] p
  have "err = None \<and> Target report = ''alpine:3.10 (alpine 3.10.2)''"
    by (simp add: example_scanReports_def)
  with p show ?thesis by simp
qed

subsection \<open>No sub-report\<close>

text \<open>
  Claim C3. When the decoder yields zero sub-reports (an empty array, or the nil slice),
  \<^verbatim>\<open>parseScanReports\<close> returns the error \<^verbatim>\<open>expected at least one report\<close> with the zero-valued
  report, not a successful aggregate; it logs nothing.
\<close>

theorem parseScanReports_empty:
  assumes "Decode reportFile = Inr scanReports" and "len scanReports = 0"
  shows "\<exists>e. parseScanReports Errorf Decode reportFile tr = (ScanReport_zero, Some e, tr) \<and>
    Error e = ''expected at least one report'' \<and> Unwrap e = None"
  using parseScanReports_empty_eq [of Decode reportFile scanReports Errorf tr, OF assms]
  by (simp add: xerrors_New_def)

theorem parseScanReports_empty_witness:
  "len (Some ([] :: string ScanReport list)) = 0 \<and>
   parseScanReports example_Errorf (\<lambda>u::unit. Inr (Some ([] :: string ScanReport list))) () [] =
     (\<lparr>Target = [], Vulnerabilities = None\<rparr>,
      Some (errorString ''expected at least one report''), [])"
  using parseScanReports_empty [of "\<lambda>u::unit. Inr (Some ([] :: string ScanReport list))" "()"
      "Some []" example_Errorf "[]"]
  by (auto simp: len_def elems_def ScanReport_zero_def xerrors_New_def parseScanReports_def)

subsection \<open>Nil and empty\<close>

text \<open>
  Claim C10. Whenever \<^verbatim>\<open>parseScanReports\<close> succeeds, the decoder yielded at least one
  sub-report and the aggregate's \<^verbatim>\<open>Vulnerabilities\<close> is an initialised slice, never nil; it
  is the initialised empty slice when every sub-report's \<^verbatim>\<open>Vulnerabilities\<close> is nil.
\<close>

theorem parseScanReports_Vulnerabilities_initialised:
  assumes "parseScanReports Errorf Decode reportFile tr = (report, None, tr')"
  shows "\<exists>scanReports vs. Decode reportFile = Inr scanReports \<and> len scanReports \<noteq> 0 \<and>
    Vulnerabilities report = Some vs \<and>
    ((\<forall>r \<in> set (elems scanReports). Vulnerabilities r = None) \<longrightarrow> vs = [])"
proof (cases "Decode reportFile")
  case (Inl e)
  from parseScanReports_Inl [of Decode reportFile e Errorf tr, OF this] assms show ?thesis by simp
next
  case (Inr scanReports)
  show ?thesis
  proof (cases "len scanReports = 0")
    case True
    from parseScanReports_empty_eq [of Decode reportFile scanReports Errorf tr, OF Inr True] assms
    show ?thesis by simp
  next
    case False
    from parseScanReports_ok [of Decode reportFile scanReports Errorf tr, OF Inr False] assms
    have v: "Vulnerabilities report =
        Some (concat (map (\<lambda>r. elems (Vulnerabilities r)) (elems scanReports)))"
      by auto
    have "(\<forall>r \<in> set (elems scanReports). Vulnerabilities r = None) \<longrightarrow>
        concat (map (\<lambda>r. elems (Vulnerabilities r)) (elems scanReports)) = []"
      by (auto simp: elems_def)
    with Inr False v show ?thesis by simp
  qed
qed

theorem parseScanReports_Vulnerabilities_initialised_witness:
  "parseScanReports example_Errorf
     (\<lambda>u::unit. Inr (Some [\<lparr>Target = ''alpine:3.10 (alpine 3.10.2)'', Vulnerabilities = None\<rparr>,
                          \<lparr>Target = ''app/package-lock.json'',
                           Vulnerabilities = (None :: string slice)\<rparr>])) () [] =
     (\<lparr>Target = ''alpine:3.10 (alpine 3.10.2)'', Vulnerabilities = Some []\<rparr>, None,
      [Log TraceLevel [(''target'', FString ''alpine:3.10 (alpine 3.10.2)'')]
         ''Parsing vulnerabilities'',
       Log TraceLevel [(''target'', FString ''app/package-lock.json'')]
         ''Parsing vulnerabilities''])"
proof -
  let ?rs = "[\<lparr>Target = ''alpine:3.10 (alpine 3.10.2)'', Vulnerabilities = None\<rparr>,
              \<lparr>Target = ''app/package-lock.json'', Vulnerabilities = (None :: string slice)\<rparr>]"
  let ?D = "\<lambda>u::unit. Inr (Some ?rs) :: error + string ScanReport slice"
  obtain report err tr' where p: "parseScanReports example_Errorf ?D () [] = (report, err, tr')"
    by (cases "parseScanReports example_Errorf ?D () []")
  have e: "err = None" and t: "Target report = ''alpine:3.10 (alpine 3.10.2)''"
    and l: "tr' = [Log TraceLevel [(''target'', FString ''alpine:3.10 (alpine 3.10.2)'')]
         ''Parsing vulnerabilities'',
       Log TraceLevel [(''target'', FString ''app/package-lock.json'')]
         ''Parsing vulnerabilities'']"
    using p by (auto simp: parseScanReports_def len_def elems_def ScanReport_zero_def)
  from parseScanReports_Vulnerabilities_initialised [of example_Errorf ?D "()" "[]" report tr'] p e
  have "Vulnerabilities report = Some []"
    by (auto simp: elems_def)
  with p e t l show ?thesis by simp
qed

section \<open>Properties of the invoker\<close>

subsection \<open>What a run starts and removes\<close>

lemma execs_append: "execs (xs @ ys) = execs xs @ execs ys"
  by (induction xs rule: execs.induct) simp_all

lemma removals_append: "removals (xs @ ys) = removals xs @ removals ys"
  by (induction xs rule: removals.induct) simp_all

lemma subprocess_envs_execs: "subprocess_envs tr = map (\<lambda>c. snd (snd c)) (execs tr)"
  by (induction tr rule: execs.induct) simp_all

lemma execs_parse_logs:
  "execs (map (\<lambda>r. Log TraceLevel [(''target'', FString (Target r))] ''Parsing vulnerabilities'') rs) = []"
  by (induction rs) simp_all

lemma removals_parse_logs:
  "removals (map (\<lambda>r. Log TraceLevel [(''target'', FString (Target r))] ''Parsing vulnerabilities'') rs) = []"
  by (induction rs) simp_all

lemma parseScanReports_trace:
  "\<exists>report err logs. parseScanReports Errorf Decode reportFile tr = (report, err, tr @ logs) \<and>
     execs logs = [] \<and> removals logs = []"
proof (cases "Decode reportFile")
  case (Inl e)
  from parseScanReports_Inl [of Decode reportFile e Errorf tr, OF this]
  have "parseScanReports Errorf Decode reportFile tr =
      (ScanReport_zero, Some (Errorf ''decoding scan report from file %w'' e), tr @ []) \<and>
    execs [] = [] \<and> removals [] = []"
    by simp
  then show ?thesis by blast
next
  case (Inr scanReports)
  show ?thesis
  proof (cases "len scanReports = 0")
    case True
    from parseScanReports_empty_eq [of Decode reportFile scanReports Errorf tr, OF Inr True]
    have "parseScanReports Errorf Decode reportFile tr =
        (ScanReport_zero, Some (xerrors_New ''expected at least one report''), tr @ []) \<and>
      execs [] = [] \<and> removals [] = []"
      by simp
    then show ?thesis by blast
  next
    case False
    from parseScanReports_ok [of Decode reportFile scanReports Errorf tr, OF Inr False]
      execs_parse_logs [of "elems scanReports"] removals_parse_logs [of "elems scanReports"]
    show ?thesis by blast
  qed
qed

lemma parseScanReports_execs:
  "execs (snd (snd (parseScanReports Errorf Decode reportFile tr))) = execs tr"
proof -
  obtain report err logs
    where "parseScanReports Errorf Decode reportFile tr = (report, err, tr @ logs)"
      and "execs logs = []"
    using parseScanReports_trace [of Errorf Decode reportFile tr] by blast
  then show ?thesis by (simp add: execs_append)
qed

lemma parseScanReports_removals:
  "removals (snd (snd (parseScanReports Errorf Decode reportFile tr))) = removals tr"
proof -
  obtain report err logs
    where "parseScanReports Errorf Decode reportFile tr = (report, err, tr @ logs)"
      and "removals logs = []"
    using parseScanReports_trace [of Errorf Decode reportFile tr] by blast
  then show ?thesis by (simp add: removals_append)
qed

lemma Run_scan_execs:
  "execs (snd (snd (Run_scan os w imageRef auth insecureRegistry executable name tr))) =
     execs tr @ [(executable, Run_args w name imageRef,
                  Run_env (Environ os) auth insecureRegistry)]"
  by (simp add: Run_scan_def Let_def execs_append parseScanReports_execs split: option.split)

lemma Run_scan_removals:
  "removals (snd (snd (Run_scan os w imageRef auth insecureRegistry executable name tr))) =
     removals tr"
  by (simp add: Run_scan_def Let_def removals_append parseScanReports_removals split: option.split)

lemma Run_deferred_execs: "execs (Run_deferred os name tr) = execs tr"
  by (simp add: Run_deferred_def Let_def execs_append split: option.split)

lemma Run_deferred_removals: "removals (Run_deferred os name tr) = removals tr @ [name]"
  by (simp add: Run_deferred_def Let_def removals_append split: option.split)

text \<open>Run, once the executable is found and the temporary file created.\<close>

lemma Run_started:
  assumes "LookPath os ''trivy'' = Inr executable"
    and "TempFile os (ReportsDir (config w)) ''scan_report_*.json'' = Inr name"
  shows "Run os w imageRef auth insecureRegistry tr =
    (let tr1 = tr @ [Log DebugLevel [(''image_ref'', FString imageRef)] ''Started scanning'',
                     Log DebugLevel [(''path'', FString name)] ''Saving scan report to tmp file''];
         res = Run_scan os w imageRef auth insecureRegistry executable name tr1
     in (fst res, fst (snd res), Run_deferred os name (snd (snd res))))"
  using assms by (simp add: Run_def Let_def split: prod.split)

lemma Run_execs:
  assumes "LookPath os ''trivy'' = Inr executable"
    and "TempFile os (ReportsDir (config w)) ''scan_report_*.json'' = Inr name"
  shows "execs (snd (snd (Run os w imageRef auth insecureRegistry tr))) =
     execs tr @ [(executable, Run_args w name imageRef,
                  Run_env (Environ os) auth insecureRegistry)]"
  by (simp add: Run_started [OF assms] Let_def Run_deferred_execs Run_scan_execs execs_append)

lemma Run_removals:
  assumes "LookPath os ''trivy'' = Inr executable"
    and "TempFile os (ReportsDir (config w)) ''scan_report_*.json'' = Inr name"
  shows "removals (snd (snd (Run os w imageRef auth insecureRegistry tr))) =
     removals tr @ [name]"
  by (simp add: Run_started [OF assms] Let_def Run_deferred_removals Run_scan_removals removals_append)

subsection \<open>The command line and the environment\<close>

lemma Run_env_overlay:
  "Run_env environ auth insecureRegistry =
     environ @
     (if Username auth \<noteq> [] \<and> Password auth \<noteq> []
      then [''TRIVY_USERNAME='' @ Username auth, ''TRIVY_PASSWORD='' @ Password auth] else []) @
     (if insecureRegistry then [''TRIVY_NON_SSL=true''] else [])"
  by (simp add: Run_env_def Let_def)

lemma Run_args_eq:
  "Run_args w name imageRef =
     (if DebugMode (config w) then [''--debug''] else []) @
     (if IgnoreUnfixed (config w) then [''--ignore-unfixed''] else []) @
     [''--no-progress'', ''--cache-dir'', CacheDir (config w), ''--severity'', Severity (config w),
      ''--vuln-type'', VulnType (config w), ''--format'', ''json'', ''--output'', name, imageRef]"
  by (simp add: Run_args_def Let_def)

lemma Run_result:
  "Run os w imageRef auth insecureRegistry tr = (report, err, tr') \<Longrightarrow>
   tr' = snd (snd (Run os w imageRef auth insecureRegistry tr))"
  by simp

lemma example_LookPath:
  "LookPath (example_sys environ p rm) ''trivy'' = Inr ''/usr/local/bin/trivy''"
  by (simp add: example_sys_def)

lemma example_TempFile:
  "TempFile (example_sys environ p rm) (ReportsDir (config example_wrapper))
     ''scan_report_*.json'' = Inr ''/data/reports/scan_report_123456789.json''"
  by (simp add: example_sys_def example_wrapper_def NewWrapper_def)

text \<open>
  Claim C7. Once \<^verbatim>\<open>trivy\<close> is found and the temporary file created, \<^verbatim>\<open>Run\<close> starts exactly
  one subprocess, and its argument list is \<^verbatim>\<open>--debug\<close> if and only if the debug-mode flag is
  set, then \<^verbatim>\<open>--ignore-unfixed\<close> if and only if the ignore-unfixed flag is set, then the base
  flags in their fixed order with the temporary file's name as the output path, and the
  image reference last.
\<close>

theorem Run_arguments:
  assumes "LookPath os ''trivy'' = Inr executable"
    and "TempFile os (ReportsDir (config w)) ''scan_report_*.json'' = Inr name"
    and "Run os w imageRef auth insecureRegistry tr = (report, err, tr')"
  shows "\<exists>env. execs tr' = execs tr @
    [(executable,
      (if DebugMode (config w) then [''--debug''] else []) @
      (if IgnoreUnfixed (config w) then [''--ignore-unfixed''] else []) @
      [''--no-progress'',
       ''--cache-dir'', CacheDir (config w),
       ''--severity'', Severity (config w),
       ''--vuln-type'', VulnType (config w),
       ''--format'', ''json'',
       ''--output'', name,
       imageRef],
      env)]"
  using Run_execs [OF assms(1,2), of imageRef auth insecureRegistry tr] Run_result [OF assms(3)]
  by (simp add: Run_args_eq)

theorem Run_arguments_witness:
  "\<exists>env. execs (snd (snd (Run
      (example_sys [''PATH=/usr/bin''] (example_proc None [] (Inr (Some example_scanReports))) None)
      example_wrapper ''alpine:3.10'' \<lparr>Username = ''admin'', Password = ''Harbor12345''\<rparr> True []))) =
    [(''/usr/local/bin/trivy'',
      [''--debug'', ''--ignore-unfixed'', ''--no-progress'', ''--cache-dir'', ''/data/cache'',
       ''--severity'', ''HIGH,CRITICAL'', ''--vuln-type'', ''os,library'', ''--format'', ''json'',
       ''--output'', ''/data/reports/scan_report_123456789.json'', ''alpine:3.10''],
      env)]"
proof -
  let ?os = "example_sys [''PATH=/usr/bin'']
      (example_proc None [] (Inr (Some example_scanReports))) None"
  let ?auth = "\<lparr>Username = ''admin'', Password = ''Harbor12345''\<rparr>"
  obtain report err tr'
    where r: "Run ?os example_wrapper ''alpine:3.10'' ?auth True [] = (report, err, tr')"
    by (cases "Run ?os example_wrapper ''alpine:3.10'' ?auth True []")
  from Run_arguments [OF example_LookPath example_TempFile r]
  have "\<exists>env. execs tr' =
    [(''/usr/local/bin/trivy'',
      [''--debug'', ''--ignore-unfixed'', ''--no-progress'', ''--cache-dir'', ''/data/cache'',
       ''--severity'', ''HIGH,CRITICAL'', ''--vuln-type'', ''os,library'', ''--format'', ''json'',
       ''--output'', ''/data/reports/scan_report_123456789.json'', ''alpine:3.10''],
      env)]"
    by (simp add: example_wrapper_def NewWrapper_def)
  with r show ?thesis by simp
qed

text \<open>
  Claim C5, as amended. The environment of the subprocess is the process environment
  followed by the entries \<^verbatim>\<open>Run\<close> adds. The added entries bind \<^verbatim>\<open>TRIVY_USERNAME\<close> and
  \<^verbatim>\<open>TRIVY_PASSWORD\<close>, to the supplied username and password, if and only if both are
  non-empty; when either is empty they bind neither variable.
\<close>

theorem Run_credentials:
  assumes "LookPath os ''trivy'' = Inr executable"
    and "TempFile os (ReportsDir (config w)) ''scan_report_*.json'' = Inr name"
    and "Run os w imageRef auth insecureRegistry tr = (report, err, tr')"
  shows "\<exists>args overlay. execs tr' = execs tr @ [(executable, args, Environ os @ overlay)] \<and>
    env_values overlay ''TRIVY_USERNAME'' =
      (if Username auth \<noteq> [] \<and> Password auth \<noteq> [] then [Username auth] else []) \<and>
    env_values overlay ''TRIVY_PASSWORD'' =
      (if Username auth \<noteq> [] \<and> Password auth \<noteq> [] then [Password auth] else [])"
proof -
  let ?overlay = "(if Username auth \<noteq> [] \<and> Password auth \<noteq> []
      then [''TRIVY_USERNAME='' @ Username auth, ''TRIVY_PASSWORD='' @ Password auth] else []) @
     (if insecureRegistry then [''TRIVY_NON_SSL=true''] else [])"
  have "execs tr' = execs tr @ [(executable, Run_args w name imageRef, Environ os @ ?overlay)]"
    using Run_execs [OF assms(1,2), of imageRef auth insecureRegistry tr] Run_result [OF assms(3)]
    by (simp add: Run_env_overlay)
  moreover have "env_values ?overlay ''TRIVY_USERNAME'' =
      (if Username auth \<noteq> [] \<and> Password auth \<noteq> [] then [Username auth] else [])"
    by (simp add: env_values_def)
  moreover have "env_values ?overlay ''TRIVY_PASSWORD'' =
      (if Username auth \<noteq> [] \<and> Password auth \<noteq> [] then [Password auth] else [])"
    by (simp add: env_values_def)
  ultimately show ?thesis by blast
qed

theorem Run_credentials_witness:
  "\<exists>args overlay. execs (snd (snd (Run
      (example_sys [''PATH=/usr/bin''] (example_proc None [] (Inr (Some example_scanReports))) None)
      example_wrapper ''alpine:3.10'' \<lparr>Username = ''admin'', Password = ''Harbor12345''\<rparr> True []))) =
      [(''/usr/local/bin/trivy'', args, [''PATH=/usr/bin''] @ overlay)] \<and>
    env_values overlay ''TRIVY_USERNAME'' = [''admin''] \<and>
    env_values overlay ''TRIVY_PASSWORD'' = [''Harbor12345'']"
proof -
  let ?os = "example_sys [''PATH=/usr/bin'']
      (example_proc None [] (Inr (Some example_scanReports))) None"
  let ?auth = "\<lparr>Username = ''admin'', Password = ''Harbor12345''\<rparr>"
  obtain report err tr'
    where r: "Run ?os example_wrapper ''alpine:3.10'' ?auth True [] = (report, err, tr')"
    by (cases "Run ?os example_wrapper ''alpine:3.10'' ?auth True []")
  have e: "Environ ?os = [''PATH=/usr/bin'']"
    by (simp add: example_sys_def)
  from Run_credentials [OF example_LookPath example_TempFile r]
  have "\<exists>args overlay. execs tr' = [(''/usr/local/bin/trivy'', args, [''PATH=/usr/bin''] @ overlay)] \<and>
    env_values overlay ''TRIVY_USERNAME'' = [''admin''] \<and>
    env_values overlay ''TRIVY_PASSWORD'' = [''Harbor12345'']"
    unfolding e by simp
  with r show ?thesis by simp
qed

text \<open>
  Claim C5 as stated speaks of the whole environment of the subprocess. That environment
  starts as a copy of the process environment: called with the username \<^verbatim>\<open>admin\<close> and an empty
  password, in a process whose environment binds \<^verbatim>\<open>TRIVY_USERNAME\<close> to \<^verbatim>\<open>admin\<close> and
  \<^verbatim>\<open>TRIVY_PASSWORD\<close> to the empty string, \<^verbatim>\<open>Run\<close> starts the subprocess with both variables
  bound to the supplied values, although the password is empty.
\<close>

theorem Run_credentials_counterexample:
  "subprocess_envs (snd (snd (Run
      (example_sys [''TRIVY_USERNAME=admin'', ''TRIVY_PASSWORD='']
         (example_proc None [] (Inr (Some example_scanReports))) None)
      example_wrapper ''alpine:3.10'' \<lparr>Username = ''admin'', Password = ''''\<rparr> False []))) =
     [[''TRIVY_USERNAME=admin'', ''TRIVY_PASSWORD='']] \<and>
   env_values [''TRIVY_USERNAME=admin'', ''TRIVY_PASSWORD=''] ''TRIVY_USERNAME'' = [''admin''] \<and>
   env_values [''TRIVY_USERNAME=admin'', ''TRIVY_PASSWORD=''] ''TRIVY_PASSWORD'' = ['''']"
proof -
  let ?os = "example_sys [''TRIVY_USERNAME=admin'', ''TRIVY_PASSWORD='']
      (example_proc None [] (Inr (Some example_scanReports))) None"
  let ?auth = "\<lparr>Username = ''admin'', Password = ''''\<rparr>"
  have "execs (snd (snd (Run ?os example_wrapper ''alpine:3.10'' ?auth False []))) =
      [(''/usr/local/bin/trivy'',
        Run_args example_wrapper ''/data/reports/scan_report_123456789.json'' ''alpine:3.10'',
        Run_env (Environ ?os) ?auth False)]"
    using Run_execs [OF example_LookPath example_TempFile, of _ _ _ "''alpine:3.10''" ?auth False "[]"]
    by simp
  then show ?thesis
    by (simp add: subprocess_envs_execs Run_env_def example_sys_def env_values_def)
qed

text \<open>
  Claim C6, as amended. The environment of the subprocess is the process environment
  followed by the entries \<^verbatim>\<open>Run\<close> adds. The added entries bind \<^verbatim>\<open>TRIVY_NON_SSL\<close>, to
  \<^verbatim>\<open>true\<close>, if and only if the insecure-registry flag is set; when it is not set they do not
  bind the variable.
\<close>

theorem Run_non_ssl:
  assumes "LookPath os ''trivy'' = Inr executable"
    and "TempFile os (ReportsDir (config w)) ''scan_report_*.json'' = Inr name"
    and "Run os w imageRef auth insecureRegistry tr = (report, err, tr')"
  shows "\<exists>args overlay. execs tr' = execs tr @ [(executable, args, Environ os @ overlay)] \<and>
    env_values overlay ''TRIVY_NON_SSL'' = (if insecureRegistry then [''true''] else [])"
proof -
  let ?overlay = "(if Username auth \<noteq> [] \<and> Password auth \<noteq> []
      then [''TRIVY_USERNAME='' @ Username auth, ''TRIVY_PASSWORD='' @ Password auth] else []) @
     (if insecureRegistry then [''TRIVY_NON_SSL=true''] else [])"
  have "execs tr' = execs tr @ [(executable, Run_args w name imageRef, Environ os @ ?overlay)]"
    using Run_execs [OF assms(1,2), of imageRef auth insecureRegistry tr] Run_result [OF assms(3)]
    by (simp add: Run_env_overlay)
  moreover have "env_values ?overlay ''TRIVY_NON_SSL'' =
      (if insecureRegistry then [''true''] else [])"
    by (simp add: env_values_def)
  ultimately show ?thesis by blast
qed

theorem Run_non_ssl_witness:
  "\<exists>args overlay. execs (snd (snd (Run
      (example_sys [''PATH=/usr/bin''] (example_proc None [] (Inr (Some example_scanReports))) None)
      example_wrapper ''alpine:3.10'' \<lparr>Username = ''admin'', Password = ''Harbor12345''\<rparr> True []))) =
      [(''/usr/local/bin/trivy'', args, [''PATH=/usr/bin''] @ overlay)] \<and>
    env_values overlay ''TRIVY_NON_SSL'' = [''true'']"
proof -
  let ?os = "example_sys [''PATH=/usr/bin'']
      (example_proc None [] (Inr (Some example_scanReports))) None"
  let ?auth = "\<lparr>Username = ''admin'', Password = ''Harbor12345''\<rparr>"
  obtain report err tr'
    where r: "Run ?os example_wrapper ''alpine:3.10'' ?auth True [] = (report, err, tr')"
    by (cases "Run ?os example_wrapper ''alpine:3.10'' ?auth True []")
  have e: "Environ ?os = [''PATH=/usr/bin'']"
    by (simp add: example_sys_def)
  from Run_non_ssl [OF example_LookPath example_TempFile r]
  have "\<exists>args overlay. execs tr' = [(''/usr/local/bin/trivy'', args, [''PATH=/usr/bin''] @ overlay)] \<and>
    env_values overlay ''TRIVY_NON_SSL'' = [''true'']"
    unfolding e by simp
  with r show ?thesis by simp
qed

text \<open>
  Claim C6 as stated speaks of the whole environment of the subprocess. With
  \<^verbatim>\<open>TRIVY_NON_SSL=true\<close> in the process environment and the flag not set, the subprocess still
  gets the variable, bound to \<^verbatim>\<open>true\<close>.
\<close>

theorem Run_non_ssl_counterexample:
  "subprocess_envs (snd (snd (Run
      (example_sys [''PATH=/usr/bin'', ''TRIVY_NON_SSL=true'']
         (example_proc None [] (Inr (Some example_scanReports))) None)
      example_wrapper ''alpine:3.10'' \<lparr>Username = '''', Password = ''''\<rparr> False []))) =
     [[''PATH=/usr/bin'', ''TRIVY_NON_SSL=true'']] \<and>
   env_values [''PATH=/usr/bin'', ''TRIVY_NON_SSL=true''] ''TRIVY_NON_SSL'' = [''true'']"
proof -
  let ?os = "example_sys [''PATH=/usr/bin'', ''TRIVY_NON_SSL=true'']
      (example_proc None [] (Inr (Some example_scanReports))) None"
  let ?auth = "\<lparr>Username = '''', Password = ''''\<rparr>"
  have "execs (snd (snd (Run ?os example_wrapper ''alpine:3.10'' ?auth False []))) =
      [(''/usr/local/bin/trivy'',
        Run_args example_wrapper ''/data/reports/scan_report_123456789.json'' ''alpine:3.10'',
        Run_env (Environ ?os) ?auth False)]"
    using Run_execs [OF example_LookPath example_TempFile, of _ _ _ "''alpine:3.10''" ?auth False "[]"]
    by simp
  then show ?thesis
    by (simp add: subprocess_envs_execs Run_env_def example_sys_def env_values_def)
qed

subsection \<open>A failing subprocess\<close>

lemma Run_scan_failure:
  assumes "Output os executable (Run_args w name imageRef)
             (Run_env (Environ os) auth insecureRegistry) = cmd"
    and "output_err cmd = Some e"
  shows "fst (Run_scan os w imageRef auth insecureRegistry executable name tr) = ScanReport_zero"
    and "fst (snd (Run_scan os w imageRef auth insecureRegistry executable name tr)) =
      Some (errorString (''running trivy: '' @ Error e @ '': '' @ stderrBuffer cmd))"
  using assms by (simp_all add: Run_scan_def Let_def)

text \<open>
  Claim C8. When \<^verbatim>\<open>cmd.Output()\<close> returns an error (a non-zero exit, or the process could not
  be run), \<^verbatim>\<open>Run\<close> returns the zero-valued report and an error whose message is
  \<^verbatim>\<open>running trivy: \<close>, the message of that error, \<^verbatim>\<open>: \<close> and the captured standard error; the
  message contains both.
\<close>

theorem Run_subprocess_failure:
  assumes "LookPath os ''trivy'' = Inr executable"
    and "TempFile os (ReportsDir (config w)) ''scan_report_*.json'' = Inr name"
    and "Output os executable (Run_args w name imageRef)
           (Run_env (Environ os) auth insecureRegistry) = cmd"
    and "output_err cmd = Some e"
  shows "\<exists>e' tr'. Run os w imageRef auth insecureRegistry tr = (ScanReport_zero, Some e', tr') \<and>
    Error e' = ''running trivy: '' @ Error e @ '': '' @ stderrBuffer cmd \<and>
    sublist (Error e) (Error e') \<and> sublist (stderrBuffer cmd) (Error e')"
proof -
  let ?e' = "errorString (''running trivy: '' @ Error e @ '': '' @ stderrBuffer cmd)"
  have "\<exists>tr'. Run os w imageRef auth insecureRegistry tr = (ScanReport_zero, Some ?e', tr')"
    by (simp add: Run_started [OF assms(1,2)] Let_def Run_scan_failure [OF assms(3,4)])
  moreover have "sublist (Error e) (Error ?e')"
    unfolding sublist_def by (rule exI [of _ "''running trivy: ''"]) simp
  moreover have "sublist (stderrBuffer cmd) (Error ?e')"
    unfolding sublist_def
    by (rule exI [of _ "''running trivy: '' @ Error e @ '': ''"], rule exI [of _ "[]"]) simp
  ultimately show ?thesis by auto
qed

theorem Run_subprocess_failure_witness:
  "\<exists>e' tr'. Run
      (example_sys [''PATH=/usr/bin'']
        (example_proc (Some (errorString ''exit status 1'')) ''unable to pull image''
           (Inr None :: error + string ScanReport slice))
        None)
      example_wrapper ''alpine:3.10'' \<lparr>Username = '''', Password = ''''\<rparr> False [] =
      (\<lparr>Target = [], Vulnerabilities = None\<rparr>, Some e', tr') \<and>
    Error e' = ''running trivy: exit status 1: unable to pull image'' \<and>
    sublist ''unable to pull image'' (Error e')"
proof -
  let ?cmd = "example_proc (Some (errorString ''exit status 1'')) ''unable to pull image''
      (Inr None :: error + string ScanReport slice)"
  let ?os = "example_sys [''PATH=/usr/bin''] ?cmd None"
  let ?auth = "\<lparr>Username = '''', Password = ''''\<rparr>"
  have o: "Output ?os ''/usr/local/bin/trivy''
      (Run_args example_wrapper ''/data/reports/scan_report_123456789.json'' ''alpine:3.10'')
      (Run_env (Environ ?os) ?auth False) = ?cmd"
    by (simp add: example_sys_def)
  have e: "output_err ?cmd = Some (errorString ''exit status 1'')"
    by (simp add: example_proc_def)
  from Run_subprocess_failure [OF example_LookPath example_TempFile o e, of "[]"]
  show ?thesis
    by (auto simp: example_proc_def ScanReport_zero_def)
qed

subsection \<open>Removal of the report file\<close>

lemma Run_scan_Remove:
  "Run_scan (os\<lparr>Remove := rm\<rparr>) w imageRef auth insecureRegistry executable name tr =
   Run_scan os w imageRef auth insecureRegistry executable name tr"
  by (simp add: Run_scan_def Let_def split: option.split)

lemma Run_Remove:
  assumes "LookPath os ''trivy'' = Inr executable"
    and "TempFile os (ReportsDir (config w)) ''scan_report_*.json'' = Inr name"
  shows "fst (Run (os\<lparr>Remove := rm\<rparr>) w imageRef auth insecureRegistry tr) =
      fst (Run os w imageRef auth insecureRegistry tr)"
    and "fst (snd (Run (os\<lparr>Remove := rm\<rparr>) w imageRef auth insecureRegistry tr)) =
      fst (snd (Run os w imageRef auth insecureRegistry tr))"
proof -
  have l: "LookPath (os\<lparr>Remove := rm\<rparr>) ''trivy'' = Inr executable"
    and t: "TempFile (os\<lparr>Remove := rm\<rparr>) (ReportsDir (config w)) ''scan_report_*.json'' =
      Inr name"
    using assms by simp_all
  show "fst (Run (os\<lparr>Remove := rm\<rparr>) w imageRef auth insecureRegistry tr) =
      fst (Run os w imageRef auth insecureRegistry tr)"
    by (simp add: Run_started [OF l t] Run_started [OF assms] Let_def Run_scan_Remove)
  show "fst (snd (Run (os\<lparr>Remove := rm\<rparr>) w imageRef auth insecureRegistry tr)) =
      fst (snd (Run os w imageRef auth insecureRegistry tr))"
    by (simp add: Run_started [OF l t] Run_started [OF assms] Let_def Run_scan_Remove)
qed

lemma Run_trace_end:
  assumes "LookPath os ''trivy'' = Inr executable"
    and "TempFile os (ReportsDir (config w)) ''scan_report_*.json'' = Inr name"
  shows "\<exists>body. snd (snd (Run os w imageRef auth insecureRegistry tr)) =
      body @ [Log DebugLevel [(''path'', FString name)] ''Removing scan report tmp file'',
              RemoveFile name] @
        (case Remove os name of
           None \<Rightarrow> []
         | Some e \<Rightarrow> [Log WarnLevel [(''error'', FError e)]
                        ''Error while removing scan report file'']) \<and>
      removals body = removals tr"
  by (simp add: Run_started [OF assms] Let_def Run_deferred_def Run_scan_removals
      removals_append split: option.split)

text \<open>
  Claim C9. Once the temporary file is created, every run of \<^verbatim>\<open>Run\<close> ends by attempting to
  remove that file, exactly once and after everything else; a failed removal adds one
  warning to the log; and the report and the error returned are the same whatever the
  removal answers.
\<close>

theorem Run_removes_report_file:
  assumes "LookPath os ''trivy'' = Inr executable"
    and "TempFile os (ReportsDir (config w)) ''scan_report_*.json'' = Inr name"
    and "Run os w imageRef auth insecureRegistry tr = (report, err, tr')"
  shows "(\<exists>body. tr' =
        body @ [Log DebugLevel [(''path'', FString name)] ''Removing scan report tmp file'',
                RemoveFile name] @
          (case Remove os name of
             None \<Rightarrow> []
           | Some e \<Rightarrow> [Log WarnLevel [(''error'', FError e)]
                          ''Error while removing scan report file'']) \<and>
        removals body = removals tr) \<and>
    removals tr' = removals tr @ [name] \<and>
    (\<forall>rm. \<exists>tr''. Run (os\<lparr>Remove := rm\<rparr>) w imageRef auth insecureRegistry tr =
        (report, err, tr''))"
proof -
  have tr': "tr' = snd (snd (Run os w imageRef auth insecureRegistry tr))"
    using assms(3) by simp
  have 1: "\<exists>body. tr' =
        body @ [Log DebugLevel [(''path'', FString name)] ''Removing scan report tmp file'',
                RemoveFile name] @
          (case Remove os name of
             None \<Rightarrow> []
           | Some e \<Rightarrow> [Log WarnLevel [(''error'', FError e)]
                          ''Error while removing scan report file'']) \<and>
        removals body = removals tr"
    unfolding tr' by (rule Run_trace_end [OF assms(1,2)])
  have 2: "removals tr' = removals tr @ [name]"
    unfolding tr' by (rule Run_removals [OF assms(1,2)])
  have 3: "\<exists>tr''. Run (os\<lparr>Remove := rm\<rparr>) w imageRef auth insecureRegistry tr =
        (report, err, tr'')" for rm
  proof -
    have "fst (Run (os\<lparr>Remove := rm\<rparr>) w imageRef auth insecureRegistry tr) = report"
      and "fst (snd (Run (os\<lparr>Remove := rm\<rparr>) w imageRef auth insecureRegistry tr)) = err"
      using Run_Remove [OF assms(1,2), of rm imageRef auth insecureRegistry tr] assms(3)
      by simp_all
    then show ?thesis
      by (cases "Run (os\<lparr>Remove := rm\<rparr>) w imageRef auth insecureRegistry tr") simp
  qed
  from 1 2 3 show ?thesis by blast
qed

text \<open>A scan that succeeds while the removal of the report file fails.\<close>

lemma Run_example_removal_fails:
  "Run
     (example_sys [''PATH=/usr/bin''] (example_proc None [] (Inr (Some example_scanReports)))
        (Some (errorString ''permission denied'')))
     example_wrapper ''alpine:3.10'' \<lparr>Username = '''', Password = ''''\<rparr> False [] =
   (\<lparr>Target = ''alpine:3.10 (alpine 3.10.2)'',
     Vulnerabilities = Some [''CVE-2019-0001'', ''CVE-2019-0002'', ''CVE-2019-0003'']\<rparr>,
    None,
    [Log DebugLevel [(''image_ref'', FString ''alpine:3.10'')] ''Started scanning'',
     Log DebugLevel [(''path'', FString ''/data/reports/scan_report_123456789.json'')]
       ''Saving scan report to tmp file'',
     Log TraceLevel
       [(''cmd'', FString ''/usr/local/bin/trivy''),
        (''args'',
         FStrings
           [''--debug'', ''--ignore-unfixed'', ''--no-progress'', ''--cache-dir'',
            ''/data/cache'', ''--severity'', ''HIGH,CRITICAL'', ''--vuln-type'', ''os,library'',
            ''--format'', ''json'', ''--output'', ''/data/reports/scan_report_123456789.json'',
            ''alpine:3.10''])]
       ''Exec command with args'',
     Exec ''/usr/local/bin/trivy''
       [''--debug'', ''--ignore-unfixed'', ''--no-progress'', ''--cache-dir'', ''/data/cache'',
        ''--severity'', ''HIGH,CRITICAL'', ''--vuln-type'', ''os,library'', ''--format'', ''json'',
        ''--output'', ''/data/reports/scan_report_123456789.json'', ''alpine:3.10'']
       [''PATH=/usr/bin''],
     Log DebugLevel
       [(''image_ref'', FString ''alpine:3.10''), (''exit_code'', FInt 0),
        (''std_err'', FString []), (''std_out'', FString [])]
       ''Running trivy finished'',
     Log TraceLevel [(''target'', FString ''alpine:3.10 (alpine 3.10.2)'')]
       ''Parsing vulnerabilities'',
     Log TraceLevel [(''target'', FString ''app/package-lock.json'')] ''Parsing vulnerabilities'',
     Log TraceLevel [(''target'', FString ''app/Gemfile.lock'')] ''Parsing vulnerabilities'',
     Log DebugLevel [(''path'', FString ''/data/reports/scan_report_123456789.json'')]
       ''Removing scan report tmp file'',
     RemoveFile ''/data/reports/scan_report_123456789.json'',
     Log WarnLevel [(''error'', FError (errorString ''permission denied''))]
       ''Error while removing scan report file''])"
  by (simp add: Run_def Run_scan_def Run_deferred_def Run_args_def Run_env_def
      parseScanReports_def ScanReport_zero_def len_def elems_def append_slice_def
      example_sys_def example_proc_def example_wrapper_def NewWrapper_def
      example_scanReports_def Let_def)

theorem Run_removes_report_file_witness:
  "\<forall>rm. \<exists>tr''. Run
     (example_sys [''PATH=/usr/bin''] (example_proc None [] (Inr (Some example_scanReports)))
        (Some (errorString ''permission denied''))
      \<lparr>Remove := rm\<rparr>)
     example_wrapper ''alpine:3.10'' \<lparr>Username = '''', Password = ''''\<rparr> False [] =
   (\<lparr>Target = ''alpine:3.10 (alpine 3.10.2)'',
     Vulnerabilities = Some [''CVE-2019-0001'', ''CVE-2019-0002'', ''CVE-2019-0003'']\<rparr>,
    None, tr'')"
  using Run_removes_report_file [OF example_LookPath example_TempFile Run_example_removal_fails]
  by blast

end
